theory Spec2Isabelle
  imports Main "HOL-Library.Word"
begin

unbundle bit_operations_syntax

section \<open>ATECC608 driver: constants and tables\<close>

text \<open>
  A shallow embedding of \<^verbatim>\<open>atecc608.go\<close>. Go's \<^verbatim>\<open>byte\<close> is an 8-bit word, the CRC
  register a 16-bit word; a Go \<^verbatim>\<open>string\<close> holding a message is its byte sequence.
\<close>

type_synonym byte = "8 word"

definition CmdAddress :: byte where
  "CmdAddress = 0x03"

definition CRC16Poly :: "16 word" where
  "CRC16Poly = 0x8005"

definition CmdMinLen :: nat where
  "CmdMinLen = 7"

definition ResponseMinLen :: nat where
  "ResponseMinLen = 4"

text \<open>Go maps: a lookup of a missing key gives the zero value of the value type.\<close>

definition Cmd_tab :: "(string \<times> byte) list" where
  "Cmd_tab = [(''Read'', 0x02), (''SelfTest'', 0x77), (''SHA256'', 0x47)]"

definition Cmd :: "string \<Rightarrow> byte" where
  "Cmd k = (case map_of Cmd_tab k of None \<Rightarrow> 0 | Some v \<Rightarrow> v)"

definition ShaMode_tab :: "(string \<times> byte) list" where
  "ShaMode_tab =
     [(''SHA_MODE_SHA256_START'', 0), (''SHA_MODE_SHA256_UPDATE'', 1),
      (''SHA_MODE_SHA256_END'', 2), (''SHA_MODE_SHA256_PUBLIC'', 3),
      (''SHA_MODE_HMAC_START'', 4), (''SHA_MODE_HMAC_UPDATE'', 1),
      (''SHA_MODE_HMAC_END'', 5), (''SHA_MODE_READ_CONTEXT'', 6),
      (''SHA_MODE_WRITE_CONTEXT'', 7), (''SHA_MODE_TARGET_MASK'', 0xC0),
      (''SHA_MODE_TARGET_TEMPKEY'', 0x00), (''SHA_MODE_TARGET_MSGDIGBUF'', 0x40),
      (''SHA_MODE_TARGET_OUT_ONLY'', 0xC0)]"

definition ShaMode :: "string \<Rightarrow> byte" where
  "ShaMode k = (case map_of ShaMode_tab k of None \<Rightarrow> 0 | Some v \<Rightarrow> v)"

definition Status_tab :: "(byte \<times> string) list" where
  "Status_tab =
     [(0x00, ''successful command execution''),
      (0x01, ''checkmac or verify miscompare''),
      (0x03, ''parse error''),
      (0x05, ''ECC fault''),
      (0x07, ''self test error''),
      (0x08, ''health test error''),
      (0x0f, ''execution error''),
      (0x11, ''after wake, prior to first command''),
      (0xee, ''watchdog about to expire''),
      (0xff, ''CRC or other communications error'')]"

definition Status :: "byte \<Rightarrow> string" where
  "Status s = (case map_of Status_tab s of None \<Rightarrow> [] | Some m \<Rightarrow> m)"

definition Test_tab :: "(string \<times> byte) list" where
  "Test_tab =
     [(''SHA'', 0x20), (''AES'', 0x10), (''ECDH'', 0x08),
      (''ECDSA Sign'', 0x04), (''ECDSA Verify'', 0x02), (''RNG DRBG'', 0x01)]"

section \<open>Checksum\<close>

text \<open>
  The inner loop of \<^verbatim>\<open>crc16\<close>: \<^verbatim>\<open>for shift := uint8(0x01); shift > 0x00; shift <<= 1\<close>.
  The shift mask is a byte, so the loop ends when the single set bit is shifted out.
\<close>

function crc16_bits :: "byte \<Rightarrow> byte \<Rightarrow> 16 word \<Rightarrow> 16 word" where
  "crc16_bits b shift crc =
     (if shift > 0x00 then
        let d = (if b AND shift \<noteq> 0 then 1 else 0) :: byte;
            c = (ucast (drop_bit 15 crc)) :: byte;
            crc1 = push_bit 1 crc;
            crc2 = (if d \<noteq> c then crc1 XOR CRC16Poly else crc1)
        in crc16_bits b (push_bit 1 shift) crc2
      else crc)"
  by pat_completeness auto

lemma shift_out_measure:
  fixes shift :: byte
  assumes "shift \<noteq> 0"
  shows "(LEAST k. push_bit k (push_bit 1 shift) = 0) < (LEAST k. push_bit k shift = 0)"
proof -
  let ?P = "\<lambda>k. push_bit k shift = 0"
  have p8: "?P 8" by simp
  have np0: "\<not> ?P 0" using assms by simp
  have "(LEAST k. ?P k) = Suc (LEAST m. ?P (Suc m))"
    using p8 np0 by (rule Least_Suc)
  moreover have "\<And>m. push_bit m (push_bit 1 shift) = push_bit (Suc m) shift"
    by (simp add: push_bit_push_bit)
  ultimately show ?thesis by simp
qed

lemma shift_out_measure_mult:
  fixes shift :: byte
  shows "shift \<noteq> 0 \<Longrightarrow>
    (LEAST k. push_bit k (shift * 2) = 0) < (LEAST k. push_bit k shift = 0)"
  using shift_out_measure [of shift] by simp

termination crc16_bits
  apply (relation "measure (\<lambda>(b, shift, crc). LEAST k. push_bit k shift = 0)")
   apply (rule wf_measure)
  apply (simp add: shift_out_measure_mult word_greater_zero_iff)
  done

declare crc16_bits.simps [simp del]

text \<open>The outer loop over the bytes of \<^verbatim>\<open>data\<close>, and the two result bytes.\<close>

primrec crc16_bytes :: "byte list \<Rightarrow> 16 word \<Rightarrow> 16 word" where
  "crc16_bytes [] crc = crc"
| "crc16_bytes (b # bs) crc = crc16_bytes bs (crc16_bits b 0x01 crc)"

definition crc16 :: "byte list \<Rightarrow> byte list" where
  "crc16 data =
     (let crc = crc16_bytes data 0 in [ucast (crc AND 0xff), ucast (drop_bit 8 crc)])"

text \<open>
  The checksum as the specification words it: a 16-bit register starting at zero; for each
  byte, for each bit from least to most significant, \<open>data_bit\<close> and \<open>carry_bit\<close> (bit 15 of
  the register) are compared after a left shift, and the polynomial is XOR-ed in when they
  differ; the register is output low byte first.
\<close>

definition checksum_bit :: "16 word \<Rightarrow> bool \<Rightarrow> 16 word" where
  "checksum_bit reg data_bit =
     (let carry_bit = bit reg 15; reg1 = push_bit 1 reg
      in if data_bit \<noteq> carry_bit then reg1 XOR 0x8005 else reg1)"

definition checksum_byte :: "16 word \<Rightarrow> byte \<Rightarrow> 16 word" where
  "checksum_byte reg b = foldl (\<lambda>r i. checksum_bit r (bit b i)) reg [0..<8]"

definition checksum :: "byte list \<Rightarrow> byte list" where
  "checksum bs =
     (let reg = foldl checksum_byte 0 bs in [ucast (take_bit 8 reg), ucast (drop_bit 8 reg)])"

section \<open>Errors, the bus and the driver state\<close>

text \<open>
  One constructor per \<^verbatim>\<open>fmt.Errorf\<close> of the file, in source order. \<open>InvalidByteError\<close> and
  \<open>ErrLength\<close> are the two error values of \<^verbatim>\<open>encoding/hex\<close>, the first carrying the
  offending byte; \<open>External\<close> is any other error value made outside the file (the I2C
  transport).
\<close>

datatype error =
    InvalidResponse
  | ChecksumFailure
  | InvalidStatus byte
  | DeviceStatus string
  | WakeUpFailed
  | InvalidByteError byte
  | ErrLength
  | External string

text \<open>A call either returns or panics (an index out of range).\<close>

datatype 'a outcome = Returns 'a | Panics

text \<open>
  The transport \<^verbatim>\<open>armoryctl.I2CWrite\<close> and \<^verbatim>\<open>armoryctl.I2CRead\<close> and the decoder
  \<^verbatim>\<open>hex.DecodeString\<close> are not part of the file: they are parameters, acting on a bus
  state \<open>'s\<close>. The package variables \<^verbatim>\<open>I2CBus\<close> and \<^verbatim>\<open>I2CAddress\<close> are read from the same
  environment.
\<close>

record 's env =
  I2CBus :: int
  I2CAddress :: int
  I2CWrite :: "int \<Rightarrow> int \<Rightarrow> byte \<Rightarrow> byte list \<Rightarrow> 's \<Rightarrow> error option \<times> 's"
  I2CRead :: "int \<Rightarrow> int \<Rightarrow> byte \<Rightarrow> nat \<Rightarrow> 's \<Rightarrow> (byte list \<times> error option) \<times> 's"
  DecodeString :: "byte list \<Rightarrow> byte list \<times> error option"

text \<open>Every transport call is recorded, in order, next to the bus state.\<close>

datatype bus_op = BusWrite int int byte "byte list" | BusRead int int byte nat

record 's world =
  bus :: 's
  trace :: "bus_op list"

definition armoryctl_I2CWrite ::
  "'s env \<Rightarrow> int \<Rightarrow> int \<Rightarrow> byte \<Rightarrow> byte list \<Rightarrow> 's world \<Rightarrow> error option \<times> 's world" where
  "armoryctl_I2CWrite E b a r v w =
     (case I2CWrite E b a r v (bus w) of
        (err, s) \<Rightarrow> (err, \<lparr>bus = s, trace = trace w @ [BusWrite b a r v]\<rparr>))"

definition armoryctl_I2CRead ::
  "'s env \<Rightarrow> int \<Rightarrow> int \<Rightarrow> byte \<Rightarrow> nat \<Rightarrow> 's world
     \<Rightarrow> (byte list \<times> error option) \<times> 's world" where
  "armoryctl_I2CRead E b a r n w =
     (case I2CRead E b a r n (bus w) of
        (res, s) \<Rightarrow> (res, \<lparr>bus = s, trace = trace w @ [BusRead b a r n]\<rparr>))"

section \<open>Response verification\<close>

text \<open>
  \<^verbatim>\<open>verifyResponse\<close> has named results \<^verbatim>\<open>(data, err)\<close>: both are returned on every path,
  \<^verbatim>\<open>data\<close> being nil before its assignment.
\<close>

definition verifyResponse :: "byte list \<Rightarrow> byte list \<times> error option" where
  "verifyResponse res =
     (if length res < ResponseMinLen then ([], Some InvalidResponse)
      else
        let size = length res - 2;
            count = res ! 0;
            payload = take size res;
            data = drop 1 (take size res);
            crc = drop size res
        in if crc16 payload \<noteq> crc then (data, Some ChecksumFailure)
           else if count \<noteq> 4 then (data, None)
           else
             let status = data ! 0
             in if Status status = [] then (data, Some (InvalidStatus status))
                else if status \<noteq> 0x00 \<and> (status \<le> 0x0f \<or> status = 0xff)
                  then (data, Some (DeviceStatus (Status status)))
                else (data, None))"

section \<open>Power states\<close>

definition Wake :: "'s env \<Rightarrow> 's world \<Rightarrow> error option outcome \<times> 's world" where
  "Wake E w =
     (case armoryctl_I2CWrite E (I2CBus E) 0 0x01 [0x00] w of
        (ignored, w1) \<Rightarrow>
          (case armoryctl_I2CRead E (I2CBus E) (I2CAddress E) 0x00 4 w1 of
             ((res, err), w2) \<Rightarrow>
               if err \<noteq> None then (Returns err, w2)
               else
                 (case verifyResponse res of
                    (data, err) \<Rightarrow>
                      if err \<noteq> None then
                        (case data of
                           [] \<Rightarrow> (Panics, w2)
                         | d0 # ds \<Rightarrow>
                             if d0 \<noteq> 0x11 then (Returns (Some WakeUpFailed), w2)
                             else (Returns err, w2))
                      else (Returns err, w2))))"

definition Sleep :: "'s env \<Rightarrow> 's world \<Rightarrow> 's world" where
  "Sleep E w = snd (armoryctl_I2CWrite E (I2CBus E) (I2CAddress E) 0x01 [] w)"

definition Idle :: "'s env \<Rightarrow> 's world \<Rightarrow> 's world" where
  "Idle E w = snd (armoryctl_I2CWrite E (I2CBus E) (I2CAddress E) 0x02 [] w)"

section \<open>Command execution\<close>

text \<open>
  The command packet built in \<^verbatim>\<open>ExecuteCmd\<close>: count, opcode, param1, param2, data, and the
  CRC of all that. The count is converted to a byte.
\<close>

definition cmd_packet :: "byte \<Rightarrow> byte \<Rightarrow> byte \<times> byte \<Rightarrow> byte list \<Rightarrow> byte list" where
  "cmd_packet opcode param1 param2 data =
     (let count = [of_nat (CmdMinLen + length data) :: byte];
          op = [opcode];
          cmd = [] @ count @ op @ [param1] @ [fst param2, snd param2] @ data
      in cmd @ crc16 cmd)"

text \<open>The exchange proper: what \<^verbatim>\<open>ExecuteCmd\<close> does after the optional wake-up.\<close>

definition ExecuteCmd_exchange ::
  "'s env \<Rightarrow> byte \<Rightarrow> byte \<Rightarrow> byte \<times> byte \<Rightarrow> byte list \<Rightarrow> 's world
     \<Rightarrow> (byte list \<times> error option) outcome \<times> 's world" where
  "ExecuteCmd_exchange E opcode param1 param2 data w =
     (let cmd = cmd_packet opcode param1 param2 data
      in case armoryctl_I2CWrite E (I2CBus E) (I2CAddress E) CmdAddress cmd w of
        (err, w1) \<Rightarrow>
          if err \<noteq> None then (Returns ([], err), w1)
          else
            (case armoryctl_I2CWrite E (I2CBus E) (I2CAddress E) 0x00 [0x00] w1 of
               (ignored, w2) \<Rightarrow>
                 (case armoryctl_I2CRead E (I2CBus E) (I2CAddress E) CmdAddress 1 w2 of
                    ((resCount, err), w3) \<Rightarrow>
                      if err \<noteq> None then (Returns ([], err), w3)
                      else
                        (case resCount of
                           [] \<Rightarrow> (Panics, w3)
                         | n # ns \<Rightarrow>
                             (case armoryctl_I2CRead E (I2CBus E) (I2CAddress E)
                                     CmdAddress (unat n) w3 of
                                ((res, err), w4) \<Rightarrow>
                                  if err \<noteq> None then (Returns (res, err), w4)
                                  else (Returns (verifyResponse res), w4))))))"

text \<open>With \<^verbatim>\<open>wake\<close> set, the deferred \<^verbatim>\<open>Idle\<close> runs when the exchange returns or panics.\<close>

definition ExecuteCmd ::
  "'s env \<Rightarrow> byte \<Rightarrow> byte \<Rightarrow> byte \<times> byte \<Rightarrow> byte list \<Rightarrow> bool \<Rightarrow> 's world
     \<Rightarrow> (byte list \<times> error option) outcome \<times> 's world" where
  "ExecuteCmd E opcode param1 param2 data wake w =
     (if wake then
        (case Wake E w of
           (Panics, w1) \<Rightarrow> (Panics, w1)
         | (Returns err, w1) \<Rightarrow>
             if err \<noteq> None then (Returns ([], err), w1)
             else
               (case ExecuteCmd_exchange E opcode param1 param2 data w1 of
                  (r, w2) \<Rightarrow> (r, Idle E w2)))
      else ExecuteCmd_exchange E opcode param1 param2 data w)"

section \<open>SHA256\<close>

text \<open>The message bytes chosen from the format argument.\<close>

definition SHA256_msg_bytes :: "'s env \<Rightarrow> string \<Rightarrow> byte list \<Rightarrow> byte list \<times> error option" where
  "SHA256_msg_bytes E sfmt msg =
     (if sfmt = ''hex'' \<and> length msg > 0 then DecodeString E msg
      else if sfmt = ''str'' then (msg, None)
      else ([], None))"

text \<open>The update loop \<^verbatim>\<open>for i := 0; i < block_cnt; i++\<close>, leaving at the first error.\<close>

function SHA256_update ::
  "'s env \<Rightarrow> byte list \<Rightarrow> nat \<Rightarrow> nat \<Rightarrow> 's world \<Rightarrow> error option outcome \<times> 's world" where
  "SHA256_update E msg_bytes block_cnt i w =
     (if i < block_cnt then
        (case ExecuteCmd E (Cmd ''SHA256'') (ShaMode ''SHA_MODE_SHA256_UPDATE'') (0x40, 0)
                (take 0x40 (drop (i * 0x40) msg_bytes)) True w of
           (Panics, w1) \<Rightarrow> (Panics, w1)
         | (Returns (data, err), w1) \<Rightarrow>
             if err \<noteq> None then (Returns err, w1)
             else SHA256_update E msg_bytes block_cnt (i + 1) w1)
      else (Returns None, w))"
  by pat_completeness auto
termination
  by (relation "measure (\<lambda>(E, msg_bytes, block_cnt, i, w). block_cnt - i)") auto

declare SHA256_update.simps [simp del]

text \<open>\<^verbatim>\<open>fmt.Sprintf("%x", data)\<close>: two lower-case hexadecimal digits per byte.\<close>

definition hex_digit :: "nat \<Rightarrow> char" where
  "hex_digit n = ''0123456789abcdef'' ! n"

definition sprintf_x :: "byte list \<Rightarrow> string" where
  "sprintf_x data = concat (map (\<lambda>b. [hex_digit (unat b div 16), hex_digit (unat b mod 16)]) data)"

definition SHA256 ::
  "'s env \<Rightarrow> string \<Rightarrow> byte list \<Rightarrow> 's world \<Rightarrow> (string \<times> error option) outcome \<times> 's world" where
  "SHA256 E sfmt msg w =
     (case ExecuteCmd E (Cmd ''SHA256'') (ShaMode ''SHA_MODE_SHA256_START'') (0x00, 0x00) []
             True w of
        (Panics, w1) \<Rightarrow> (Panics, w1)
      | (Returns (data, err), w1) \<Rightarrow>
          if err \<noteq> None then (Returns ([], err), w1)
          else
            (case SHA256_msg_bytes E sfmt msg of
               (msg_bytes, err) \<Rightarrow>
                 if err \<noteq> None then (Returns ([], err), w1)
                 else
                   let block_cnt = length msg_bytes div 64
                   in case SHA256_update E msg_bytes block_cnt 0 w1 of
                     (Panics, w2) \<Rightarrow> (Panics, w2)
                   | (Returns err, w2) \<Rightarrow>
                       if err \<noteq> None then (Returns ([], err), w2)
                       else
                         (case ExecuteCmd E (Cmd ''SHA256'') (ShaMode ''SHA_MODE_SHA256_END'')
                                 (of_nat (length msg_bytes - block_cnt * 64), 0)
                                 (drop (block_cnt * 64) msg_bytes) True w2 of
                            (Panics, w3) \<Rightarrow> (Panics, w3)
                          | (Returns (data, err), w3) \<Rightarrow>
                              if err \<noteq> None then (Returns ([], err), w3)
                              else (Returns (''SHA256 HexDigest: '' @ sprintf_x data, None),
                                    Sleep E w3))))"

section \<open>Self test\<close>

text \<open>
  \<^verbatim>\<open>for k, v := range Test\<close> visits the entries of the map in an order Go does not fix: the
  order is an argument. \<^verbatim>\<open>data[0]\<close> is read in every iteration.
\<close>

fun SelfTest_range :: "(string \<times> byte) list \<Rightarrow> byte list \<Rightarrow> string \<Rightarrow> string outcome" where
  "SelfTest_range [] data res = Returns res"
| "SelfTest_range ((k, v) # kvs) data res =
     (case data of
        [] \<Rightarrow> Panics
      | d0 # ds \<Rightarrow>
          SelfTest_range kvs data
            (if d0 AND v \<noteq> 0x00 then res @ k @ '':FAIL '' else res @ k @ '':PASS ''))"

definition SelfTest ::
  "'s env \<Rightarrow> (string \<times> byte) list \<Rightarrow> 's world \<Rightarrow> (string \<times> error option) outcome \<times> 's world" where
  "SelfTest E order w =
     (case ExecuteCmd E (Cmd ''SelfTest'') 0x3b (0x00, 0x00) [] True w of
        (Panics, w1) \<Rightarrow> (Panics, w1)
      | (Returns (data, err), w1) \<Rightarrow>
          if err \<noteq> None then (Returns ([], err), w1)
          else
            (case SelfTest_range order data [] of
               Panics \<Rightarrow> (Panics, w1)
             | Returns res \<Rightarrow> (Returns (res, None), Sleep E w1)))"

section \<open>A scripted bus\<close>

text \<open>
  To run the driver on concrete responses: the bus state is the queue of the responses
  still to be read; a write fails where \<open>wfail\<close> says so (device address and register).
  The decoder follows Go's \<^verbatim>\<open>encoding/hex\<close>.
\<close>

definition fromHexChar :: "byte \<Rightarrow> byte option" where
  "fromHexChar c =
     (if 0x30 \<le> c \<and> c \<le> 0x39 then Some (c - 0x30)
      else if 0x61 \<le> c \<and> c \<le> 0x66 then Some (c - 0x61 + 10)
      else if 0x41 \<le> c \<and> c \<le> 0x46 then Some (c - 0x41 + 10)
      else None)"

fun hex_Decode :: "byte list \<Rightarrow> byte list \<Rightarrow> byte list \<times> error option" where
  "hex_Decode [] dst = (dst, None)"
| "hex_Decode [p] dst =
     (case fromHexChar p of
        None \<Rightarrow> (dst, Some (InvalidByteError p))
      | Some a \<Rightarrow> (dst, Some ErrLength))"
| "hex_Decode (p # q # src) dst =
     (case fromHexChar p of
        None \<Rightarrow> (dst, Some (InvalidByteError p))
      | Some a \<Rightarrow>
          (case fromHexChar q of
             None \<Rightarrow> (dst, Some (InvalidByteError q))
           | Some b \<Rightarrow> hex_Decode src (dst @ [push_bit 4 a OR b])))"

definition scripted :: "(int \<Rightarrow> byte \<Rightarrow> bool) \<Rightarrow> ((byte list \<times> error option) list) env" where
  "scripted wfail =
     \<lparr>I2CBus = 0, I2CAddress = 0x60,
      I2CWrite = (\<lambda>b a r v s. (if wfail a r then Some (External ''write error'') else None, s)),
      I2CRead = (\<lambda>b a r n s.
         case s of [] \<Rightarrow> (([], Some (External ''read error'')), []) | x # xs \<Rightarrow> (x, xs)),
      DecodeString = (\<lambda>s. hex_Decode s [])\<rparr>"

definition script :: "(byte list \<times> error option) list \<Rightarrow> ((byte list \<times> error option) list) world" where
  "script rs = \<lparr>bus = rs, trace = []\<rparr>"

text \<open>The device as the data sheet describes it: only the wake-up write, sent to address 0, fails.\<close>

definition device :: "((byte list \<times> error option) list) env" where
  "device = scripted (\<lambda>a r. a = 0)"

text \<open>A device that also rejects every write to register 0x00.\<close>

definition device_nack :: "((byte list \<times> error option) list) env" where
  "device_nack = scripted (\<lambda>a r. a = 0 \<or> r = 0x00)"

text \<open>A device that rejects every write but those to the command register.\<close>

definition device_cmd_only :: "((byte list \<times> error option) list) env" where
  "device_cmd_only = scripted (\<lambda>a r. r \<noteq> CmdAddress)"

text \<open>
  Responses of the chip: the status after wake-up, a count byte of 4, the status
  "successful command execution", a count byte of 35 and a 32-byte digest.
\<close>

definition awake :: "byte list \<times> error option" where
  "awake = ([0x04, 0x11, 0x33, 0x43], None)"

definition count4 :: "byte list \<times> error option" where
  "count4 = ([0x04], None)"

definition success :: "byte list \<times> error option" where
  "success = ([0x04, 0x00, 0x03, 0x40], None)"

definition count35 :: "byte list \<times> error option" where
  "count35 = ([0x23], None)"

definition digest :: "byte list \<times> error option" where
  "digest = (0x23 # replicate 32 0xAB @ [0xB5, 0x82], None)"

section \<open>Observing the commands sent\<close>

text \<open>The packets written to the command register, in order.\<close>

fun cmd_writes :: "bus_op list \<Rightarrow> byte list list" where
  "cmd_writes [] = []"
| "cmd_writes (BusWrite b a r v # ops) =
     (if r = CmdAddress then v # cmd_writes ops else cmd_writes ops)"
| "cmd_writes (BusRead b a r n # ops) = cmd_writes ops"

text \<open>
  The packets of a digest over the message \<open>bs\<close>: one Start, one Update per full block of
  64 bytes, one End with the trailing bytes and their number as param2.
\<close>

definition SHA256_packets :: "byte list \<Rightarrow> byte list list" where
  "SHA256_packets bs =
     [cmd_packet 0x47 0x00 (0x00, 0x00) []] @
     map (\<lambda>i. cmd_packet 0x47 0x01 (0x40, 0x00) (take 64 (drop (64 * i) bs)))
       [0..<length bs div 64] @
     [cmd_packet 0x47 0x02 (of_nat (length bs mod 64), 0x00)
        (drop (length bs - length bs mod 64) bs)]"

section \<open>The checksum is the bit-serial CRC-16 of the specification\<close>

lemma carry_bit_byte:
  fixes crc :: "16 word"
  shows "(ucast (drop_bit 15 crc) :: byte) = (if bit crc 15 then 1 else 0)"
proof (rule bit_word_eqI)
  fix n :: nat
  assume n: "n < LENGTH(8)"
  have hi: "\<not> bit crc (15 + n)" if "n \<noteq> 0"
  proof
    assume "bit crc (15 + n)"
    then have "15 + n < LENGTH(16)" by (rule bit_imp_le_length)
    with that show False by simp
  qed
  show "bit (ucast (drop_bit 15 crc) :: byte) n = bit (if bit crc 15 then 1 else 0 :: byte) n"
    using n hi by (cases "n = 0") (auto simp: bit_simps)
qed

lemma crc16_bits_unfold:
  "shift \<noteq> 0 \<Longrightarrow>
   crc16_bits b shift crc =
     crc16_bits b (push_bit 1 shift) (checksum_bit crc (b AND shift \<noteq> 0))"
  by (subst crc16_bits.simps)
     (simp add: word_greater_zero_iff carry_bit_byte checksum_bit_def CRC16Poly_def Let_def)

lemma crc16_bits_zero: "crc16_bits b 0 crc = crc"
  by (subst crc16_bits.simps) simp

lemma data_bit_iff:
  fixes b :: byte
  shows "(b AND 1 \<noteq> 0) = bit b 0" "(b AND 2 \<noteq> 0) = bit b 1"
    "(b AND 4 \<noteq> 0) = bit b 2" "(b AND 8 \<noteq> 0) = bit b 3"
    "(b AND 16 \<noteq> 0) = bit b 4" "(b AND 32 \<noteq> 0) = bit b 5"
    "(b AND 64 \<noteq> 0) = bit b 6" "(b AND 128 \<noteq> 0) = bit b 7"
  using and_exp_eq_0_iff_not_bit [of b 0] and_exp_eq_0_iff_not_bit [of b 1]
    and_exp_eq_0_iff_not_bit [of b 2] and_exp_eq_0_iff_not_bit [of b 3]
    and_exp_eq_0_iff_not_bit [of b 4] and_exp_eq_0_iff_not_bit [of b 5]
    and_exp_eq_0_iff_not_bit [of b 6] and_exp_eq_0_iff_not_bit [of b 7]
  by simp_all

lemma upt_8: "[0..<8] = [0, 1, 2, 3, 4, 5, 6, 7]"
  by (simp add: upt_rec)

lemma byte_256: "(256 :: byte) = 0"
  by simp

lemma crc16_bits_byte: "crc16_bits b 0x01 crc = checksum_byte crc b"
  by (simp add: crc16_bits_unfold crc16_bits_zero data_bit_iff checksum_byte_def upt_8 byte_256)

lemma crc16_bytes_foldl: "crc16_bytes bs crc = foldl checksum_byte crc bs"
  by (induction bs arbitrary: crc) (simp_all add: crc16_bits_byte)

lemma low_byte:
  fixes crc :: "16 word"
  shows "(ucast (crc AND 0xff) :: byte) = ucast (take_bit 8 crc)"
proof -
  have "(0xff :: 16 word) = mask 8" by (simp add: mask_eq_exp_minus_1)
  then show ?thesis by (simp add: take_bit_eq_mask)
qed

text \<open>
  C1: for every byte sequence, \<open>crc16\<close> (the code's loop over a shifting 8-bit mask) returns
  what the specification's bit-serial CRC-16 returns: register zero at the start, bits of
  each byte from least to most significant, left shift and XOR with 0x8005 exactly when the
  data bit differs from the previous bit 15, low byte first.
\<close>

theorem crc16_is_reference_checksum: "crc16 data = checksum data"
proof -
  have "crc16_bytes data 0 = foldl checksum_byte 0 data"
    by (rule crc16_bytes_foldl)
  then show ?thesis
    by (simp add: crc16_def checksum_def low_byte Let_def)
qed

section \<open>Response verification and status decoding\<close>

lemma length_crc16: "length (crc16 xs) = 2"
  by (simp add: crc16_def Let_def)

lemma Status_known:
  "Status 0x00 = ''successful command execution''"
  "Status 0x01 = ''checkmac or verify miscompare''"
  by (simp_all add: Status_def Status_tab_def)

lemma Status_unknown: "s \<notin> fst ` set Status_tab \<Longrightarrow> Status s = []"
  by (simp add: Status_def map_of_eq_None_iff [THEN iffD2])

lemma verifyResponse_checked:
  assumes len: "ResponseMinLen \<le> length res"
    and crc: "crc16 (take (length res - 2) res) = drop (length res - 2) res"
  shows "verifyResponse res =
     (drop 1 (take (length res - 2) res),
      if res ! 0 \<noteq> 4 then None
      else if Status (res ! 1) = [] then Some (InvalidStatus (res ! 1))
      else if res ! 1 \<noteq> 0x00 \<and> (res ! 1 \<le> 0x0f \<or> res ! 1 = 0xff)
        then Some (DeviceStatus (Status (res ! 1)))
      else None)"
proof -
  have "1 < length res - 2" using len by (simp add: ResponseMinLen_def)
  then have "drop 1 (take (length res - 2) res) ! 0 = res ! 1"
    by simp
  then show ?thesis
    using len crc by (simp add: verifyResponse_def Let_def)
qed

text \<open>
  C2 (as amended): for every received buffer that passes the length and checksum checks,
  the bytes between the count byte and the checksum are returned, and the first of them is
  interpreted as a status code exactly when the count byte \<open>res ! 0\<close> equals 4, whatever the
  length of the buffer; with any other count byte no error is raised.
\<close>

theorem verifyResponse_status_by_count:
  assumes "ResponseMinLen \<le> length res"
    and "crc16 (take (length res - 2) res) = drop (length res - 2) res"
  shows "fst (verifyResponse res) = drop 1 (take (length res - 2) res) \<and>
     snd (verifyResponse res) =
       (if res ! 0 \<noteq> 4 then None
        else if Status (res ! 1) = [] then Some (InvalidStatus (res ! 1))
        else if res ! 1 \<noteq> 0x00 \<and> (res ! 1 \<le> 0x0f \<or> res ! 1 = 0xff)
          then Some (DeviceStatus (Status (res ! 1)))
        else None)"
  using verifyResponse_checked [OF assms] by simp

theorem verifyResponse_status_by_count_witness:
  "ResponseMinLen \<le> length [4, 0x01, 0x00, 0xC3 :: byte] \<and>
   crc16 (take (length [4, 0x01, 0x00, 0xC3 :: byte] - 2) [4, 0x01, 0x00, 0xC3])
     = drop (length [4, 0x01, 0x00, 0xC3 :: byte] - 2) [4, 0x01, 0x00, 0xC3] \<and>
   fst (verifyResponse [4, 0x01, 0x00, 0xC3]) = [0x01] \<and>
   snd (verifyResponse [4, 0x01, 0x00, 0xC3])
     = Some (DeviceStatus ''checkmac or verify miscompare'')"
proof -
  have h1: "ResponseMinLen \<le> length [4, 0x01, 0x00, 0xC3 :: byte]"
    by (simp add: ResponseMinLen_def)
  have h2: "crc16 (take (length [4, 0x01, 0x00, 0xC3 :: byte] - 2) [4, 0x01, 0x00, 0xC3])
     = drop (length [4, 0x01, 0x00, 0xC3 :: byte] - 2) [4, 0x01, 0x00, 0xC3]"
    by code_simp
  note t = verifyResponse_status_by_count [OF h1 h2]
  show ?thesis
    using t h1 h2 by (simp add: Status_known)
qed

text \<open>
  The claim as stated fails on a buffer of five bytes with a valid checksum whose count
  byte is 4: its first payload byte 0x01 is interpreted as a status and raises an error.
\<close>

theorem verifyResponse_long_frame_counterexample:
  "4 < length [4, 0x01, 0x00, 0x8A, 0x02 :: byte] \<and>
   crc16 [4, 0x01, 0x00] = [0x8A, 0x02] \<and>
   verifyResponse [4, 0x01, 0x00, 0x8A, 0x02]
     = ([0x01, 0x00], Some (DeviceStatus ''checkmac or verify miscompare''))"
  by code_simp

text \<open>
  C6 (as amended): for every 4-byte response with a valid checksum whose count byte is 4,
  status byte 0x00 yields no error, status byte 0x01 yields the device error with the message
  "checkmac or verify miscompare", and a status byte that is no key of the status table
  yields the invalid-status error.
\<close>

theorem status_decoding_count_4:
  assumes "crc16 [4, 0x00] = [a0, a1]"
    and "crc16 [4, 0x01] = [b0, b1]"
    and "crc16 [4, s] = [c0, c1]" and "s \<notin> fst ` set Status_tab"
  shows "snd (verifyResponse [4, 0x00, a0, a1]) = None \<and>
     snd (verifyResponse [4, 0x01, b0, b1])
       = Some (DeviceStatus ''checkmac or verify miscompare'') \<and>
     snd (verifyResponse [4, s, c0, c1]) = Some (InvalidStatus s)"
proof -
  have a: "snd (verifyResponse [4, 0x00, a0, a1]) = None"
    using assms(1) by (simp add: verifyResponse_def ResponseMinLen_def Status_known)
  have b: "snd (verifyResponse [4, 0x01, b0, b1])
       = Some (DeviceStatus ''checkmac or verify miscompare'')"
    using assms(2) by (simp add: verifyResponse_def ResponseMinLen_def Status_known)
  have c: "snd (verifyResponse [4, s, c0, c1]) = Some (InvalidStatus s)"
    using assms(3) Status_unknown [OF assms(4)]
    by (simp add: verifyResponse_def ResponseMinLen_def)
  from a b c show ?thesis by simp
qed

theorem status_decoding_count_4_witness:
  "crc16 [4, 0x00] = [0x03, 0x40] \<and> crc16 [4, 0x01] = [0x00, 0xC3] \<and>
   crc16 [4, 0x42] = [0x8F, 0x41] \<and> (0x42 :: byte) \<notin> fst ` set Status_tab \<and>
   snd (verifyResponse [4, 0x00, 0x03, 0x40]) = None \<and>
   snd (verifyResponse [4, 0x01, 0x00, 0xC3])
     = Some (DeviceStatus ''checkmac or verify miscompare'') \<and>
   snd (verifyResponse [4, 0x42, 0x8F, 0x41]) = Some (InvalidStatus 0x42)"
proof -
  have h1: "crc16 [4, 0x00] = [0x03, 0x40]" by code_simp
  have h2: "crc16 [4, 0x01] = [0x00, 0xC3]" by code_simp
  have h3: "crc16 [4, 0x42] = [0x8F, 0x41]" by code_simp
  have h4: "(0x42 :: byte) \<notin> fst ` set Status_tab" by (simp add: Status_tab_def)
  show ?thesis
    using status_decoding_count_4 [OF h1 h2 h3 h4] h1 h2 h3 h4 by simp
qed

text \<open>
  The claim as stated fails on a 4-byte response with a valid checksum whose count byte is
  5: its status byte 0x01 yields no error.
\<close>

theorem status_decoding_other_count_counterexample:
  "length [5, 0x01, 0x09, 0x43 :: byte] = 4 \<and>
   crc16 [5, 0x01] = [0x09, 0x43] \<and>
   verifyResponse [5, 0x01, 0x09, 0x43] = ([0x01], None)"
  by code_simp

section \<open>The command packet\<close>

lemma cmd_packet_eq:
  "cmd_packet opcode param1 (lo, hi) data =
     (of_nat (7 + length data) # opcode # param1 # lo # hi # data) @
     crc16 (of_nat (7 + length data) # opcode # param1 # lo # hi # data)"
  by (simp add: cmd_packet_def CmdMinLen_def Let_def)

lemma count_byte: "unat (of_nat n :: byte) = n mod 256"
  by (simp add: unat_of_nat)

text \<open>
  C5 (as amended): for every opcode, param1, param2 and data, the packet is
  count, opcode, param1, param2, data, checksum, where the count byte is \<open>7 + length data\<close>
  reduced modulo 256 (so it equals \<open>7 + length data\<close> whenever the data has at most 248
  bytes), the packet has \<open>7 + length data\<close> bytes, and its last two bytes are the checksum
  of all the bytes before them.
\<close>

theorem cmd_packet_layout:
  "cmd_packet opcode param1 (lo, hi) data =
     (of_nat (7 + length data) # opcode # param1 # lo # hi # data) @
     crc16 (of_nat (7 + length data) # opcode # param1 # lo # hi # data) \<and>
   length (cmd_packet opcode param1 (lo, hi) data) = 7 + length data \<and>
   unat (hd (cmd_packet opcode param1 (lo, hi) data)) = (7 + length data) mod 256 \<and>
   (length data \<le> 248 \<longrightarrow>
      unat (hd (cmd_packet opcode param1 (lo, hi) data)) = 7 + length data) \<and>
   drop (length (cmd_packet opcode param1 (lo, hi) data) - 2)
       (cmd_packet opcode param1 (lo, hi) data)
     = crc16 (take (length (cmd_packet opcode param1 (lo, hi) data) - 2)
         (cmd_packet opcode param1 (lo, hi) data))"
proof -
  let ?pre = "of_nat (7 + length data) # opcode # param1 # lo # hi # data"
  have eq: "cmd_packet opcode param1 (lo, hi) data = ?pre @ crc16 ?pre"
    by (rule cmd_packet_eq)
  have len: "length (cmd_packet opcode param1 (lo, hi) data) = 7 + length data"
    by (simp add: eq length_crc16)
  have cnt: "unat (hd (cmd_packet opcode param1 (lo, hi) data)) = (7 + length data) mod 256"
    by (simp only: eq append_Cons list.sel count_byte)
  have small: "length data \<le> 248 \<longrightarrow>
      unat (hd (cmd_packet opcode param1 (lo, hi) data)) = 7 + length data"
    using cnt by simp
  have pre_len: "length ?pre = length (cmd_packet opcode param1 (lo, hi) data) - 2"
    by (simp add: len)
  have rt: "drop (length (cmd_packet opcode param1 (lo, hi) data) - 2)
       (cmd_packet opcode param1 (lo, hi) data)
     = crc16 (take (length (cmd_packet opcode param1 (lo, hi) data) - 2)
         (cmd_packet opcode param1 (lo, hi) data))"
    unfolding pre_len [symmetric] by (simp add: eq)
  from eq len cnt small rt show ?thesis by blast
qed

theorem cmd_packet_layout_witness:
  "length ([] :: byte list) \<le> 248 \<and>
   cmd_packet 0x47 0x00 (0x00, 0x00) []
     = [0x07, 0x47, 0x00, 0x00, 0x00] @ crc16 [0x07, 0x47, 0x00, 0x00, 0x00] \<and>
   unat (hd (cmd_packet 0x47 0x00 (0x00, 0x00) [])) = 7"
  using cmd_packet_layout [of "0x47" "0x00" "0x00" "0x00" "[]"] by simp

text \<open>
  The claim as stated fails for data of 249 bytes: the count byte is 0, not 256.
\<close>

theorem cmd_packet_count_counterexample:
  "unat (hd (cmd_packet 0x47 0x02 (0x00, 0x00) (replicate 249 0x00)))
     \<noteq> 7 + length (replicate 249 (0x00 :: byte))"
  by (simp add: cmd_packet_def CmdMinLen_def Let_def)

section \<open>Sleep and Idle\<close>

text \<open>
  C7 (as amended): every call to Sleep performs a single write with register address 0x01
  and no data bytes at the device address, and every call to Idle a single write with
  register address 0x02 and no data bytes; the error the write returns is dropped: the
  result is only the new bus state, with the write recorded.
\<close>

theorem Sleep_Idle_writes:
  "Sleep E w =
     \<lparr>bus = snd (I2CWrite E (I2CBus E) (I2CAddress E) 0x01 [] (bus w)),
      trace = trace w @ [BusWrite (I2CBus E) (I2CAddress E) 0x01 []]\<rparr> \<and>
   Idle E w =
     \<lparr>bus = snd (I2CWrite E (I2CBus E) (I2CAddress E) 0x02 [] (bus w)),
      trace = trace w @ [BusWrite (I2CBus E) (I2CAddress E) 0x02 []]\<rparr>"
  by (simp add: Sleep_def Idle_def armoryctl_I2CWrite_def split: prod.split)

text \<open>
  The claim as stated fails: the write of Sleep is not a write of the byte 0x01 to the
  command register (register address 0x03), nor that of Idle a write of the byte 0x02.
\<close>

theorem Sleep_Idle_register_counterexample:
  "trace (Sleep (scripted (\<lambda>a r. False)) (script []))
     \<noteq> [BusWrite 0 0x60 CmdAddress [0x01]] \<and>
   trace (Idle (scripted (\<lambda>a r. False)) (script []))
     \<noteq> [BusWrite 0 0x60 CmdAddress [0x02]]"
  by (simp add: Sleep_def Idle_def armoryctl_I2CWrite_def scripted_def script_def CmdAddress_def)

section \<open>Wake\<close>

lemma verifyResponse_data:
  assumes "ResponseMinLen \<le> length res"
  shows "\<exists>ds. fst (verifyResponse res) = res ! 1 # ds"
proof -
  have n: "1 < length res - 2" using assms by (simp add: ResponseMinLen_def)
  then have "take (length res - 2) res \<noteq> []" by auto
  have "drop 1 (take (length res - 2) res) = res ! 1 # drop 2 (take (length res - 2) res)"
    using n by (simp add: Cons_nth_drop_Suc [symmetric] numeral_2_eq_2)
  moreover have "fst (verifyResponse res) = drop 1 (take (length res - 2) res)"
    using assms by (simp add: verifyResponse_def Let_def)
  ultimately show ?thesis by simp
qed

lemma Status_after_wake: "Status 0x11 = ''after wake, prior to first command''"
  by (simp add: Status_def Status_tab_def)

lemma verifyResponse_not_WakeUpFailed: "snd (verifyResponse res) \<noteq> Some WakeUpFailed"
  by (simp add: verifyResponse_def Let_def)

lemma verifyResponse_after_wake:
  assumes "ResponseMinLen \<le> length res" and "res ! 1 = 0x11"
    and "snd (verifyResponse res) \<noteq> None"
  shows "snd (verifyResponse res) = Some ChecksumFailure"
proof -
  have n: "1 < length res - 2" using assms(1) by (simp add: ResponseMinLen_def)
  then have "drop 1 (take (length res - 2) res) ! 0 = 0x11"
    using assms(2) by simp
  then show ?thesis
    using assms(1,3) by (simp add: verifyResponse_def Let_def Status_after_wake split: if_splits)
qed

lemma Wake_read_ok:
  assumes rd: "fst (armoryctl_I2CRead E (I2CBus E) (I2CAddress E) 0x00 4
              (snd (armoryctl_I2CWrite E (I2CBus E) 0 0x01 [0x00] w))) = (res, None)"
    and len: "ResponseMinLen \<le> length res"
  shows "fst (Wake E w) =
     Returns (if snd (verifyResponse res) \<noteq> None \<and> res ! 1 \<noteq> 0x11 then Some WakeUpFailed
              else snd (verifyResponse res))"
proof -
  obtain ds where d: "fst (verifyResponse res) = res ! 1 # ds"
    using verifyResponse_data [OF len] by blast
  obtain err where v: "verifyResponse res = (res ! 1 # ds, err)"
    using d by (cases "verifyResponse res") simp
  obtain ig w1 where w1: "armoryctl_I2CWrite E (I2CBus E) 0 0x01 [0x00] w = (ig, w1)"
    by (cases "armoryctl_I2CWrite E (I2CBus E) 0 0x01 [0x00] w")
  obtain w2 where w2: "armoryctl_I2CRead E (I2CBus E) (I2CAddress E) 0x00 4 w1 = ((res, None), w2)"
    using rd w1 by (cases "armoryctl_I2CRead E (I2CBus E) (I2CAddress E) 0x00 4 w1") simp
  show ?thesis
    by (simp add: Wake_def w1 w2 v)
qed

lemma Wake_read_error:
  assumes "snd (fst (armoryctl_I2CRead E (I2CBus E) (I2CAddress E) 0x00 4
              (snd (armoryctl_I2CWrite E (I2CBus E) 0 0x01 [0x00] w)))) = Some e"
  shows "fst (Wake E w) = Returns (Some e)"
proof -
  obtain ig w1 where w1: "armoryctl_I2CWrite E (I2CBus E) 0 0x01 [0x00] w = (ig, w1)"
    by (cases "armoryctl_I2CWrite E (I2CBus E) 0 0x01 [0x00] w")
  obtain res w2 where w2:
    "armoryctl_I2CRead E (I2CBus E) (I2CAddress E) 0x00 4 w1 = ((res, Some e), w2)"
    using assms w1 by (cases "armoryctl_I2CRead E (I2CBus E) (I2CAddress E) 0x00 4 w1") auto
  show ?thesis
    by (simp add: Wake_def w1 w2)
qed

text \<open>
  C4 (as amended): when the verifying read returns at least four bytes and no transport
  error, Wake fails with the wake-up error exactly when verification fails and the first
  payload byte is not 0x11; it returns success exactly when verification succeeds (a status
  0x11 with a valid checksum passes verification); when verification fails and the first
  payload byte is 0x11, which only a checksum failure does, Wake returns that checksum
  error. A transport error of the verifying read is returned unchanged.
\<close>

theorem Wake_verification:
  assumes rd: "fst (armoryctl_I2CRead E (I2CBus E) (I2CAddress E) 0x00 4
              (snd (armoryctl_I2CWrite E (I2CBus E) 0 0x01 [0x00] w))) = (res, None)"
    and len: "ResponseMinLen \<le> length res"
    and rerr: "snd (fst (armoryctl_I2CRead E' (I2CBus E') (I2CAddress E') 0x00 4
              (snd (armoryctl_I2CWrite E' (I2CBus E') 0 0x01 [0x00] w')))) = Some e"
  shows "fst (Wake E w) =
       Returns (if snd (verifyResponse res) = None then None
                else if res ! 1 \<noteq> 0x11 then Some WakeUpFailed
                else Some ChecksumFailure) \<and>
     fst (Wake E' w') = Returns (Some e)"
proof -
  note wk = Wake_read_ok [OF rd len]
  have a: "fst (Wake E w) =
       Returns (if snd (verifyResponse res) = None then None
                else if res ! 1 \<noteq> 0x11 then Some WakeUpFailed
                else Some ChecksumFailure)"
  proof (cases "snd (verifyResponse res) \<noteq> None \<and> res ! 1 = 0x11")
    case True
    then have "snd (verifyResponse res) = Some ChecksumFailure"
      using verifyResponse_after_wake [OF len] by blast
    with True wk show ?thesis by simp
  next
    case False
    with wk show ?thesis by auto
  qed
  have b: "fst (Wake E' w') = Returns (Some e)"
    using rerr by (rule Wake_read_error)
  from a b show ?thesis by blast
qed

theorem Wake_verification_witness:
  "fst (armoryctl_I2CRead device (I2CBus device) (I2CAddress device) 0x00 4
      (snd (armoryctl_I2CWrite device (I2CBus device) 0 0x01 [0x00]
         (script [([4, 0x01, 0x00, 0xC3], None)])))) = ([4, 0x01, 0x00, 0xC3], None) \<and>
   ResponseMinLen \<le> length [4, 0x01, 0x00, 0xC3 :: byte] \<and>
   snd (fst (armoryctl_I2CRead device (I2CBus device) (I2CAddress device) 0x00 4
      (snd (armoryctl_I2CWrite device (I2CBus device) 0 0x01 [0x00] (script [])))))
     = Some (External ''read error'') \<and>
   fst (Wake device (script [([4, 0x01, 0x00, 0xC3], None)])) = Returns (Some WakeUpFailed) \<and>
   fst (Wake device (script [])) = Returns (Some (External ''read error''))"
proof -
  have h1: "fst (armoryctl_I2CRead device (I2CBus device) (I2CAddress device) 0x00 4
      (snd (armoryctl_I2CWrite device (I2CBus device) 0 0x01 [0x00]
         (script [([4, 0x01, 0x00, 0xC3], None)])))) = ([4, 0x01, 0x00, 0xC3], None)"
    by (simp add: armoryctl_I2CRead_def armoryctl_I2CWrite_def device_def scripted_def script_def)
  have h2: "ResponseMinLen \<le> length [4, 0x01, 0x00, 0xC3 :: byte]"
    by (simp add: ResponseMinLen_def)
  have h3: "snd (fst (armoryctl_I2CRead device (I2CBus device) (I2CAddress device) 0x00 4
      (snd (armoryctl_I2CWrite device (I2CBus device) 0 0x01 [0x00] (script [])))))
     = Some (External ''read error'')"
    by (simp add: armoryctl_I2CRead_def armoryctl_I2CWrite_def device_def scripted_def script_def)
  have v: "snd (verifyResponse [4, 0x01, 0x00, 0xC3])
     = Some (DeviceStatus ''checkmac or verify miscompare'')"
    by code_simp
  note t = Wake_verification [OF h1 h2 h3]
  have a: "fst (Wake device (script [([4, 0x01, 0x00, 0xC3], None)])) = Returns (Some WakeUpFailed)"
    using t v by simp
  have b: "fst (Wake device (script [])) = Returns (Some (External ''read error''))"
    using t by simp
  from h1 h2 h3 a b show ?thesis by blast
qed

text \<open>
  The claim as stated fails when the four bytes carry the payload byte 0x11 and a wrong
  checksum: verification fails for a reason other than the after-wake status, and Wake
  returns neither the wake-up error nor success, but the checksum error.
\<close>

theorem Wake_checksum_counterexample:
  "snd (verifyResponse [4, 0x11, 0x00, 0x00]) = Some ChecksumFailure \<and>
   fst (Wake (scripted (\<lambda>a r. a = 0)) (script [([4, 0x11, 0x00, 0x00], None)]))
     = Returns (Some ChecksumFailure)"
  by code_simp

section \<open>The command exchange\<close>

lemma ExecuteCmd_exchange_steps:
  assumes "armoryctl_I2CWrite E (I2CBus E) (I2CAddress E) CmdAddress
             (cmd_packet opcode param1 param2 data) w = (e1, w1)"
    and "armoryctl_I2CWrite E (I2CBus E) (I2CAddress E) 0x00 [0x00] w1 = (e2, w2)"
    and "armoryctl_I2CRead E (I2CBus E) (I2CAddress E) CmdAddress 1 w2 = ((resCount, e3), w3)"
    and "armoryctl_I2CRead E (I2CBus E) (I2CAddress E) CmdAddress (unat (hd resCount)) w3
           = ((res, e4), w4)"
  shows "ExecuteCmd_exchange E opcode param1 param2 data w =
     (if e1 \<noteq> None then (Returns ([], e1), w1)
      else if e3 \<noteq> None then (Returns ([], e3), w3)
      else if resCount = [] then (Panics, w3)
      else if e4 \<noteq> None then (Returns (res, e4), w4)
      else (Returns (verifyResponse res), w4))"
  using assms by (cases resCount) (simp_all add: ExecuteCmd_exchange_def Let_def)

text \<open>
  With the wake flag, the same exchange runs after a successful Wake and is followed by
  Idle; an error of Wake is returned before any command is written.
\<close>

lemma ExecuteCmd_after_wake:
  assumes "Wake E w0 = (Returns None, w)"
  shows "ExecuteCmd E opcode param1 param2 data True w0 =
     (fst (ExecuteCmd E opcode param1 param2 data False w),
      Idle E (snd (ExecuteCmd E opcode param1 param2 data False w)))"
  using assms by (simp add: ExecuteCmd_def split: prod.split)

lemma ExecuteCmd_wake_error:
  assumes "Wake E w0 = (Returns (Some e), w)"
  shows "ExecuteCmd E opcode param1 param2 data True w0 = (Returns ([], Some e), w)"
  using assms by (simp add: ExecuteCmd_def)

text \<open>
  C3 (as amended): in ExecuteCmd, with or without the wake flag, a transport error of the
  command write (\<open>e1\<close>), of the 1-byte length read (\<open>e3\<close>) or of the payload read (\<open>e4\<close>)
  ends the operation and is returned to the caller, as is an error of Wake; the error \<open>e2\<close>
  of the write of a zero byte to register 0x00 is dropped and the exchange goes on to the
  reads. The writes whose errors are dropped are that one, the first write of Wake (\<open>e0\<close>),
  and the writes of Sleep (\<open>es\<close>) and Idle (\<open>ei\<close>), the deferred Idle of ExecuteCmd included.
\<close>

theorem ExecuteCmd_transport_errors:
  assumes started: "(if wake then Wake E w0 else (Returns None, w0)) = (Returns None, w)"
    and cmd_write: "armoryctl_I2CWrite E (I2CBus E) (I2CAddress E) CmdAddress
             (cmd_packet opcode param1 param2 data) w = (e1, w1)"
    and trigger_write: "armoryctl_I2CWrite E (I2CBus E) (I2CAddress E) 0x00 [0x00] w1 = (e2, w2)"
    and length_read:
      "armoryctl_I2CRead E (I2CBus E) (I2CAddress E) CmdAddress 1 w2 = ((resCount, e3), w3)"
    and payload_read:
      "armoryctl_I2CRead E (I2CBus E) (I2CAddress E) CmdAddress (unat (hd resCount)) w3
         = ((res, e4), w4)"
    and wake_failed: "Wake E' w0' = (Returns (Some e'), w')"
    and wake_write: "armoryctl_I2CWrite E (I2CBus E) 0 0x01 [0x00] v = (e0, va)"
    and wake_read: "armoryctl_I2CRead E (I2CBus E) (I2CAddress E) 0x00 4 va = ((wres, er), vb)"
    and sleep_write: "armoryctl_I2CWrite E (I2CBus E) (I2CAddress E) 0x01 [] u = (es, us)"
    and idle_write: "armoryctl_I2CWrite E (I2CBus E) (I2CAddress E) 0x02 [] t = (ei, ti)"
  shows "ExecuteCmd E opcode param1 param2 data wake w0 =
       (case (if e1 \<noteq> None then (Returns ([], e1), w1)
              else if e3 \<noteq> None then (Returns ([], e3), w3)
              else if resCount = [] then (Panics, w3)
              else if e4 \<noteq> None then (Returns (res, e4), w4)
              else (Returns (verifyResponse res), w4)) of
          (r, wr) \<Rightarrow> (r, if wake then Idle E wr else wr)) \<and>
     ExecuteCmd E' opcode param1 param2 data True w0' = (Returns ([], Some e'), w') \<and>
     Wake E v =
       (if er \<noteq> None then Returns er
        else case verifyResponse wres of
          (d, err) \<Rightarrow>
            if err = None then Returns None
            else case d of
              [] \<Rightarrow> Panics
            | d0 # ds \<Rightarrow> if d0 \<noteq> 0x11 then Returns (Some WakeUpFailed) else Returns err,
        vb) \<and>
     Sleep E u = us \<and>
     Idle E t = ti"
proof -
  note ex = ExecuteCmd_exchange_steps [OF cmd_write trigger_write length_read payload_read]
  have a: "ExecuteCmd E opcode param1 param2 data wake w0 =
       (case (if e1 \<noteq> None then (Returns ([], e1), w1)
              else if e3 \<noteq> None then (Returns ([], e3), w3)
              else if resCount = [] then (Panics, w3)
              else if e4 \<noteq> None then (Returns (res, e4), w4)
              else (Returns (verifyResponse res), w4)) of
          (r, wr) \<Rightarrow> (r, if wake then Idle E wr else wr))"
  proof (cases wake)
    case True
    with started have "Wake E w0 = (Returns None, w)" by simp
    then have "ExecuteCmd E opcode param1 param2 data True w0 =
        (case ExecuteCmd_exchange E opcode param1 param2 data w of (r, wr) \<Rightarrow> (r, Idle E wr))"
      by (simp add: ExecuteCmd_def)
    with True show ?thesis by (simp only: ex if_True)
  next
    case False
    with started have "w0 = w" by simp
    then have "ExecuteCmd E opcode param1 param2 data False w0 =
        ExecuteCmd_exchange E opcode param1 param2 data w"
      by (simp add: ExecuteCmd_def)
    with False show ?thesis by (simp add: ex)
  qed
  have b: "ExecuteCmd E' opcode param1 param2 data True w0' = (Returns ([], Some e'), w')"
    using wake_failed by (simp add: ExecuteCmd_def)
  have c: "Wake E v =
       (if er \<noteq> None then Returns er
        else case verifyResponse wres of
          (d, err) \<Rightarrow>
            if err = None then Returns None
            else case d of
              [] \<Rightarrow> Panics
            | d0 # ds \<Rightarrow> if d0 \<noteq> 0x11 then Returns (Some WakeUpFailed) else Returns err,
        vb)"
    by (simp add: Wake_def wake_write wake_read split: prod.split list.split)
  have d: "Sleep E u = us"
    by (simp add: Sleep_def sleep_write)
  have e: "Idle E t = ti"
    by (simp add: Idle_def idle_write)
  from a b c d e show ?thesis by blast
qed

theorem ExecuteCmd_transport_errors_witness:
  "(if True then Wake device_cmd_only (script [awake, count4, success]) else (Returns None,
    script [awake, count4, success])) = (Returns None, \<lparr>bus = [count4, success],
    trace = [BusWrite 0 0 0x01 [0x00], BusRead 0 0x60 0x00 4]\<rparr>) \<and>
   armoryctl_I2CWrite device_cmd_only (I2CBus device_cmd_only) (I2CAddress device_cmd_only)
     CmdAddress (cmd_packet 0x47 0x00 (0x00, 0x00) []) \<lparr>bus = [count4, success],
     trace = [BusWrite 0 0 0x01 [0x00], BusRead 0 0x60 0x00 4]\<rparr> = (None, \<lparr>bus
     = [count4, success], trace = [BusWrite 0 0 0x01 [0x00], BusRead 0 0x60 0x00 4, BusWrite
     0 0x60 0x03 (cmd_packet 0x47 0x00 (0x00, 0x00) [])]\<rparr>) \<and>
   armoryctl_I2CWrite device_cmd_only (I2CBus device_cmd_only) (I2CAddress device_cmd_only)
     0x00 [0x00] \<lparr>bus = [count4, success], trace = [BusWrite 0 0 0x01 [0x00], BusRead
     0 0x60 0x00 4, BusWrite 0 0x60 0x03 (cmd_packet 0x47 0x00 (0x00, 0x00) [])]\<rparr> =
     (Some (External ''write error''), \<lparr>bus = [count4, success], trace = [BusWrite 0
     0 0x01 [0x00], BusRead 0 0x60 0x00 4, BusWrite 0 0x60 0x03 (cmd_packet 0x47 0x00 (0x00,
     0x00) []), BusWrite 0 0x60 0x00 [0x00]]\<rparr>) \<and>
   armoryctl_I2CRead device_cmd_only (I2CBus device_cmd_only) (I2CAddress device_cmd_only)
     CmdAddress 1 \<lparr>bus = [count4, success], trace = [BusWrite 0 0 0x01 [0x00],
     BusRead 0 0x60 0x00 4, BusWrite 0 0x60 0x03 (cmd_packet 0x47 0x00 (0x00, 0x00) []),
     BusWrite 0 0x60 0x00 [0x00]]\<rparr> = (([0x04], None), \<lparr>bus = [success], trace
     = [BusWrite 0 0 0x01 [0x00], BusRead 0 0x60 0x00 4, BusWrite 0 0x60 0x03 (cmd_packet
     0x47 0x00 (0x00, 0x00) []), BusWrite 0 0x60 0x00 [0x00], BusRead 0 0x60 0x03
     1]\<rparr>) \<and>
   armoryctl_I2CRead device_cmd_only (I2CBus device_cmd_only) (I2CAddress device_cmd_only)
     CmdAddress (unat (hd [0x04 :: byte])) \<lparr>bus = [success], trace = [BusWrite 0 0
     0x01 [0x00], BusRead 0 0x60 0x00 4, BusWrite 0 0x60 0x03 (cmd_packet 0x47 0x00 (0x00,
     0x00) []), BusWrite 0 0x60 0x00 [0x00], BusRead 0 0x60 0x03 1]\<rparr> = (([0x04, 0x00,
     0x03, 0x40], None), \<lparr>bus = [], trace = [BusWrite 0 0 0x01 [0x00], BusRead 0 0x60
     0x00 4, BusWrite 0 0x60 0x03 (cmd_packet 0x47 0x00 (0x00, 0x00) []), BusWrite 0 0x60
     0x00 [0x00], BusRead 0 0x60 0x03 1, BusRead 0 0x60 0x03 4]\<rparr>) \<and>
   Wake device (script []) = (Returns (Some (External ''read error'')), \<lparr>bus = [],
     trace = [BusWrite 0 0 0x01 [0x00], BusRead 0 0x60 0x00 4]\<rparr>) \<and>
   armoryctl_I2CWrite device_cmd_only (I2CBus device_cmd_only) 0 0x01 [0x00] (script
     [awake]) = (Some (External ''write error''), \<lparr>bus = [awake], trace = [BusWrite 0
     0 0x01 [0x00]]\<rparr>) \<and>
   armoryctl_I2CRead device_cmd_only (I2CBus device_cmd_only) (I2CAddress device_cmd_only)
     0x00 4 \<lparr>bus = [awake], trace = [BusWrite 0 0 0x01 [0x00]]\<rparr> = (([0x04,
     0x11, 0x33, 0x43], None), \<lparr>bus = [], trace = [BusWrite 0 0 0x01 [0x00], BusRead
     0 0x60 0x00 4]\<rparr>) \<and>
   armoryctl_I2CWrite device_cmd_only (I2CBus device_cmd_only) (I2CAddress device_cmd_only)
     0x01 [] (script []) = (Some (External ''write error''), \<lparr>bus = [], trace =
     [BusWrite 0 0x60 0x01 []]\<rparr>) \<and>
   armoryctl_I2CWrite device_cmd_only (I2CBus device_cmd_only) (I2CAddress device_cmd_only)
     0x02 [] (script []) = (Some (External ''write error''), \<lparr>bus = [], trace =
     [BusWrite 0 0x60 0x02 []]\<rparr>) \<and>
   ExecuteCmd device_cmd_only 0x47 0x00 (0x00, 0x00) [] True (script [awake, count4,
     success]) = (Returns ([0x00], None), \<lparr>bus = [], trace = [BusWrite 0 0 0x01
     [0x00], BusRead 0 0x60 0x00 4, BusWrite 0 0x60 0x03 (cmd_packet 0x47 0x00 (0x00, 0x00)
     []), BusWrite 0 0x60 0x00 [0x00], BusRead 0 0x60 0x03 1, BusRead 0 0x60 0x03 4,
     BusWrite 0 0x60 0x02 []]\<rparr>) \<and>
   ExecuteCmd device 0x47 0x00 (0x00, 0x00) [] True (script []) = (Returns ([], Some
     (External ''read error'')), \<lparr>bus = [], trace = [BusWrite 0 0 0x01 [0x00],
     BusRead 0 0x60 0x00 4]\<rparr>) \<and>
   Wake device_cmd_only (script [awake]) = (Returns None, \<lparr>bus = [], trace =
     [BusWrite 0 0 0x01 [0x00], BusRead 0 0x60 0x00 4]\<rparr>) \<and>
   Sleep device_cmd_only (script []) = \<lparr>bus = [], trace = [BusWrite 0 0x60 0x01
     []]\<rparr> \<and>
   Idle device_cmd_only (script []) = \<lparr>bus = [], trace = [BusWrite 0 0x60 0x02
     []]\<rparr>"
proof -
  note defs = armoryctl_I2CWrite_def armoryctl_I2CRead_def device_cmd_only_def scripted_def
    script_def CmdAddress_def awake_def count4_def success_def
  have started: "(if True then Wake device_cmd_only (script [awake, count4, success]) else
    (Returns None, script [awake, count4, success])) = (Returns None, \<lparr>bus = [count4,
    success], trace = [BusWrite 0 0 0x01 [0x00], BusRead 0 0x60 0x00 4]\<rparr>)"
    by code_simp
  have cmd_write: "armoryctl_I2CWrite device_cmd_only (I2CBus device_cmd_only) (I2CAddress
    device_cmd_only) CmdAddress (cmd_packet 0x47 0x00 (0x00, 0x00) []) \<lparr>bus =
    [count4, success], trace = [BusWrite 0 0 0x01 [0x00], BusRead 0 0x60 0x00 4]\<rparr> =
    (None, \<lparr>bus = [count4, success], trace = [BusWrite 0 0 0x01 [0x00], BusRead 0
    0x60 0x00 4, BusWrite 0 0x60 0x03 (cmd_packet 0x47 0x00 (0x00, 0x00) [])]\<rparr>)"
    by (simp add: defs)
  have trigger_write: "armoryctl_I2CWrite device_cmd_only (I2CBus device_cmd_only)
    (I2CAddress device_cmd_only) 0x00 [0x00] \<lparr>bus = [count4, success], trace =
    [BusWrite 0 0 0x01 [0x00], BusRead 0 0x60 0x00 4, BusWrite 0 0x60 0x03 (cmd_packet 0x47
    0x00 (0x00, 0x00) [])]\<rparr> = (Some (External ''write error''), \<lparr>bus =
    [count4, success], trace = [BusWrite 0 0 0x01 [0x00], BusRead 0 0x60 0x00 4, BusWrite 0
    0x60 0x03 (cmd_packet 0x47 0x00 (0x00, 0x00) []), BusWrite 0 0x60 0x00 [0x00]]\<rparr>)"
    by (simp add: defs)
  have length_read: "armoryctl_I2CRead device_cmd_only (I2CBus device_cmd_only) (I2CAddress
    device_cmd_only) CmdAddress 1 \<lparr>bus = [count4, success], trace = [BusWrite 0 0
    0x01 [0x00], BusRead 0 0x60 0x00 4, BusWrite 0 0x60 0x03 (cmd_packet 0x47 0x00 (0x00,
    0x00) []), BusWrite 0 0x60 0x00 [0x00]]\<rparr> = (([0x04], None), \<lparr>bus =
    [success], trace = [BusWrite 0 0 0x01 [0x00], BusRead 0 0x60 0x00 4, BusWrite 0 0x60
    0x03 (cmd_packet 0x47 0x00 (0x00, 0x00) []), BusWrite 0 0x60 0x00 [0x00], BusRead 0 0x60
    0x03 1]\<rparr>)"
    by (simp add: defs)
  have payload_read: "armoryctl_I2CRead device_cmd_only (I2CBus device_cmd_only) (I2CAddress
    device_cmd_only) CmdAddress (unat (hd [0x04 :: byte])) \<lparr>bus = [success], trace =
    [BusWrite 0 0 0x01 [0x00], BusRead 0 0x60 0x00 4, BusWrite 0 0x60 0x03 (cmd_packet 0x47
    0x00 (0x00, 0x00) []), BusWrite 0 0x60 0x00 [0x00], BusRead 0 0x60 0x03 1]\<rparr> =
    (([0x04, 0x00, 0x03, 0x40], None), \<lparr>bus = [], trace = [BusWrite 0 0 0x01 [0x00],
    BusRead 0 0x60 0x00 4, BusWrite 0 0x60 0x03 (cmd_packet 0x47 0x00 (0x00, 0x00) []),
    BusWrite 0 0x60 0x00 [0x00], BusRead 0 0x60 0x03 1, BusRead 0 0x60 0x03 4]\<rparr>)"
    by (simp add: defs)
  have wake_failed: "Wake device (script []) = (Returns (Some (External ''read error'')),
    \<lparr>bus = [], trace = [BusWrite 0 0 0x01 [0x00], BusRead 0 0x60 0x00 4]\<rparr>)"
    by code_simp
  have wake_write: "armoryctl_I2CWrite device_cmd_only (I2CBus device_cmd_only) 0 0x01
    [0x00] (script [awake]) = (Some (External ''write error''), \<lparr>bus = [awake], trace
    = [BusWrite 0 0 0x01 [0x00]]\<rparr>)"
    by (simp add: defs)
  have wake_read: "armoryctl_I2CRead device_cmd_only (I2CBus device_cmd_only) (I2CAddress
    device_cmd_only) 0x00 4 \<lparr>bus = [awake], trace = [BusWrite 0 0 0x01
    [0x00]]\<rparr> = (([0x04, 0x11, 0x33, 0x43], None), \<lparr>bus = [], trace = [BusWrite
    0 0 0x01 [0x00], BusRead 0 0x60 0x00 4]\<rparr>)"
    by (simp add: defs)
  have sleep_write: "armoryctl_I2CWrite device_cmd_only (I2CBus device_cmd_only) (I2CAddress
    device_cmd_only) 0x01 [] (script []) = (Some (External ''write error''), \<lparr>bus =
    [], trace = [BusWrite 0 0x60 0x01 []]\<rparr>)"
    by (simp add: defs)
  have idle_write: "armoryctl_I2CWrite device_cmd_only (I2CBus device_cmd_only) (I2CAddress
    device_cmd_only) 0x02 [] (script []) = (Some (External ''write error''), \<lparr>bus =
    [], trace = [BusWrite 0 0x60 0x02 []]\<rparr>)"
    by (simp add: defs)
  have v: "verifyResponse [0x04, 0x00, 0x03, 0x40] = ([0x00], None)"
    by code_simp
  have a: "verifyResponse [0x04, 0x11, 0x33, 0x43] = ([0x11], None)"
    by code_simp
  have i: "Idle device_cmd_only \<lparr>bus = [], trace = [BusWrite 0 0 0x01 [0x00], BusRead 0 0x60 0x00 4, BusWrite 0 0x60 0x03 (cmd_packet 0x47 0x00 (0x00, 0x00) []), BusWrite 0 0x60 0x00 [0x00], BusRead 0 0x60 0x03 1, BusRead 0 0x60 0x03 4]\<rparr> = \<lparr>bus = [], trace = [BusWrite 0 0 0x01 [0x00], BusRead 0 0x60 0x00 4, BusWrite 0 0x60 0x03 (cmd_packet 0x47 0x00 (0x00, 0x00) []), BusWrite 0 0x60 0x00 [0x00], BusRead 0 0x60 0x03 1, BusRead 0 0x60 0x03 4, BusWrite 0 0x60 0x02 []]\<rparr>"
    by (simp add: Idle_def defs)
  note t = ExecuteCmd_transport_errors [OF started cmd_write trigger_write length_read
    payload_read wake_failed wake_write wake_read sleep_write idle_write]
  have r1: "ExecuteCmd device_cmd_only 0x47 0x00 (0x00, 0x00) [] True (script [awake,
    count4, success]) = (Returns ([0x00], None), \<lparr>bus = [], trace = [BusWrite 0 0
    0x01 [0x00], BusRead 0 0x60 0x00 4, BusWrite 0 0x60 0x03 (cmd_packet 0x47 0x00 (0x00,
    0x00) []), BusWrite 0 0x60 0x00 [0x00], BusRead 0 0x60 0x03 1, BusRead 0 0x60 0x03 4,
    BusWrite 0 0x60 0x02 []]\<rparr>)"
    using t v i by simp
  have r2: "ExecuteCmd device 0x47 0x00 (0x00, 0x00) [] True (script []) = (Returns ([],
    Some (External ''read error'')), \<lparr>bus = [], trace = [BusWrite 0 0 0x01 [0x00],
    BusRead 0 0x60 0x00 4]\<rparr>)"
    using t by simp
  have r3: "Wake device_cmd_only (script [awake]) = (Returns None, \<lparr>bus = [], trace =
    [BusWrite 0 0 0x01 [0x00], BusRead 0 0x60 0x00 4]\<rparr>)"
    using t a by simp
  have r4: "Sleep device_cmd_only (script []) = \<lparr>bus = [], trace = [BusWrite 0 0x60
    0x01 []]\<rparr>"
    using t by simp
  have r5: "Idle device_cmd_only (script []) = \<lparr>bus = [], trace = [BusWrite 0 0x60
    0x02 []]\<rparr>"
    using t by simp
  from started cmd_write trigger_write length_read payload_read wake_failed wake_write
    wake_read sleep_write idle_write r1 r2 r3 r4 r5
  show ?thesis by blast
qed

text \<open>
  The claim as stated fails on a device that rejects the write to register 0x00: the
  transport error of that write is not returned, and the command succeeds.
\<close>

theorem ExecuteCmd_trigger_write_counterexample:
  "fst (I2CWrite device_nack (I2CBus device_nack) (I2CAddress device_nack) 0x00 [0x00]
         [([4], None), ([4, 0x00, 0x03, 0x40], None)]) = Some (External ''write error'') \<and>
   ExecuteCmd device_nack 0x47 0x00 (0x00, 0x00) [] False
       (script [([4], None), ([4, 0x00, 0x03, 0x40], None)])
     = (Returns ([0x00], None),
        \<lparr>bus = [],
         trace = [BusWrite 0 0x60 0x03 [0x07, 0x47, 0x00, 0x00, 0x00, 0x2E, 0x85],
                  BusWrite 0 0x60 0x00 [0x00], BusRead 0 0x60 0x03 1, BusRead 0 0x60 0x03 4]\<rparr>)"
  by code_simp

section \<open>Self test\<close>

text \<open>
  When the loop over the tests is reached with a result byte \<open>d0\<close>, it reports FAIL for the
  tests whose bit is set in \<open>d0\<close> and PASS for the others, in the order of the iteration.
\<close>

lemma SelfTest_range_report:
  "SelfTest_range order (d0 # ds) res =
     Returns (res @ concat (map (\<lambda>(k, v). k @ (if d0 AND v \<noteq> 0 then '':FAIL '' else '':PASS '')) order))"
  by (induction order arbitrary: res) auto

text \<open>
  A result of one byte arrives in a frame with count byte 4, and response verification lets
  it through only when it is one of the status codes 0x00, 0x11 and 0xee.
\<close>

lemma one_byte_result_passes:
  assumes "crc16 [4, s] = [c0, c1]"
  shows "(snd (verifyResponse [4, s, c0, c1]) = None) = (s = 0x00 \<or> s = 0x11 \<or> s = 0xee)"
  using assms
  by (auto simp: verifyResponse_def ResponseMinLen_def Status_def Status_tab_def)

text \<open>
  C9: the chip answers the self test with one result byte, in a frame of four bytes with
  count byte 4. For the result byte 0x20 (the SHA test failed) response verification reads
  that byte as a status code, finds it in no entry of the status table, and SelfTest
  returns the invalid-status error instead of the report.
\<close>

theorem SelfTest_sha_failure_rejected:
  "crc16 [4, 0x20] = [0x18, 0xC0] \<and>
   fst (SelfTest device Test_tab
     (script [([4, 0x11, 0x33, 0x43], None), ([4], None), ([4, 0x20, 0x18, 0xC0], None)]))
     = Returns ([], Some (InvalidStatus 0x20))"
  by code_simp

section \<open>The commands of a digest\<close>

lemma cmd_writes_append: "cmd_writes (xs @ ys) = cmd_writes xs @ cmd_writes ys"
  by (induction xs rule: cmd_writes.induct) simp_all

lemma trace_I2CWrite:
  "trace (snd (armoryctl_I2CWrite E b a r v w)) = trace w @ [BusWrite b a r v]"
  by (simp add: armoryctl_I2CWrite_def split: prod.split)

lemma trace_I2CRead:
  "trace (snd (armoryctl_I2CRead E b a r n w)) = trace w @ [BusRead b a r n]"
  by (simp add: armoryctl_I2CRead_def split: prod.split)

lemma cmd_writes_I2CWrite:
  "cmd_writes (trace (snd (armoryctl_I2CWrite E b a r v w)))
     = cmd_writes (trace w) @ (if r = CmdAddress then [v] else [])"
  by (simp add: trace_I2CWrite cmd_writes_append)

lemma cmd_writes_I2CRead:
  "cmd_writes (trace (snd (armoryctl_I2CRead E b a r n w))) = cmd_writes (trace w)"
  by (simp add: trace_I2CRead cmd_writes_append)

lemma cmd_writes_I2CWrite_eq:
  "armoryctl_I2CWrite E b a r v w = (e, w1) \<Longrightarrow>
   cmd_writes (trace w1) = cmd_writes (trace w) @ (if r = CmdAddress then [v] else [])"
  using cmd_writes_I2CWrite [of E b a r v w] by simp

lemma cmd_writes_I2CRead_eq:
  "armoryctl_I2CRead E b a r n w = (x, w1) \<Longrightarrow> cmd_writes (trace w1) = cmd_writes (trace w)"
  using cmd_writes_I2CRead [of E b a r n w] by simp

lemma cmd_writes_Wake: "cmd_writes (trace (snd (Wake E w))) = cmd_writes (trace w)"
proof -
  obtain ig w1 where w1: "armoryctl_I2CWrite E (I2CBus E) 0 0x01 [0x00] w = (ig, w1)"
    by (cases "armoryctl_I2CWrite E (I2CBus E) 0 0x01 [0x00] w")
  obtain x w2 where w2: "armoryctl_I2CRead E (I2CBus E) (I2CAddress E) 0x00 4 w1 = (x, w2)"
    by (cases "armoryctl_I2CRead E (I2CBus E) (I2CAddress E) 0x00 4 w1")
  have "snd (Wake E w) = w2"
    by (simp add: Wake_def w1 w2 split: prod.split list.split)
  moreover have "cmd_writes (trace w2) = cmd_writes (trace w)"
    using cmd_writes_I2CWrite_eq [OF w1] cmd_writes_I2CRead_eq [OF w2]
    by (simp add: CmdAddress_def)
  ultimately show ?thesis by simp
qed

lemma cmd_writes_Idle: "cmd_writes (trace (Idle E w)) = cmd_writes (trace w)"
  by (simp add: Idle_def cmd_writes_I2CWrite CmdAddress_def)

lemma cmd_writes_Sleep: "cmd_writes (trace (Sleep E w)) = cmd_writes (trace w)"
  by (simp add: Sleep_def cmd_writes_I2CWrite CmdAddress_def)

lemma cmd_writes_exchange:
  "cmd_writes (trace (snd (ExecuteCmd_exchange E opcode param1 param2 data w)))
     = cmd_writes (trace w) @ [cmd_packet opcode param1 param2 data]"
proof -
  let ?cmd = "cmd_packet opcode param1 param2 data"
  obtain e1 w1 where w1:
    "armoryctl_I2CWrite E (I2CBus E) (I2CAddress E) CmdAddress ?cmd w = (e1, w1)"
    by (cases "armoryctl_I2CWrite E (I2CBus E) (I2CAddress E) CmdAddress ?cmd w")
  obtain e2 w2 where w2:
    "armoryctl_I2CWrite E (I2CBus E) (I2CAddress E) 0x00 [0x00] w1 = (e2, w2)"
    by (cases "armoryctl_I2CWrite E (I2CBus E) (I2CAddress E) 0x00 [0x00] w1")
  obtain resCount e3 w3 where w3:
    "armoryctl_I2CRead E (I2CBus E) (I2CAddress E) CmdAddress 1 w2 = ((resCount, e3), w3)"
    by (cases "armoryctl_I2CRead E (I2CBus E) (I2CAddress E) CmdAddress 1 w2") auto
  obtain res e4 w4 where w4:
    "armoryctl_I2CRead E (I2CBus E) (I2CAddress E) CmdAddress (unat (hd resCount)) w3
       = ((res, e4), w4)"
    by (cases "armoryctl_I2CRead E (I2CBus E) (I2CAddress E) CmdAddress (unat (hd resCount)) w3")
       auto
  have c1: "cmd_writes (trace w1) = cmd_writes (trace w) @ [?cmd]"
    using cmd_writes_I2CWrite_eq [OF w1] by simp
  have c2: "cmd_writes (trace w2) = cmd_writes (trace w1)"
    using cmd_writes_I2CWrite_eq [OF w2] by (simp add: CmdAddress_def)
  have c3: "cmd_writes (trace w3) = cmd_writes (trace w2)"
    using cmd_writes_I2CRead_eq [OF w3] by simp
  have c4: "cmd_writes (trace w4) = cmd_writes (trace w3)"
    using cmd_writes_I2CRead_eq [OF w4] by simp
  show ?thesis
    by (simp add: ExecuteCmd_exchange_steps [OF w1 w2 w3 w4] c1 c2 c3 c4)
qed

lemma cmd_writes_ExecuteCmd:
  assumes "fst (ExecuteCmd E opcode param1 param2 data wake w) = Returns (r, None)"
  shows "cmd_writes (trace (snd (ExecuteCmd E opcode param1 param2 data wake w)))
     = cmd_writes (trace w) @ [cmd_packet opcode param1 param2 data]"
proof (cases wake)
  case False
  then show ?thesis by (simp add: ExecuteCmd_def cmd_writes_exchange)
next
  case True
  obtain o1 w1 where wk: "Wake E w = (o1, w1)" by (cases "Wake E w")
  have cw: "cmd_writes (trace w1) = cmd_writes (trace w)"
    using cmd_writes_Wake [of E w] wk by simp
  from assms True wk have o1: "o1 = Returns None"
    by (auto simp: ExecuteCmd_def split: outcome.splits if_splits prod.splits)
  obtain r2 w2 where ex: "ExecuteCmd_exchange E opcode param1 param2 data w1 = (r2, w2)"
    by (cases "ExecuteCmd_exchange E opcode param1 param2 data w1")
  have "cmd_writes (trace w2) = cmd_writes (trace w1) @ [cmd_packet opcode param1 param2 data]"
    using cmd_writes_exchange [of E opcode param1 param2 data w1] ex by simp
  then show ?thesis
    using True wk o1 ex cw by (simp add: ExecuteCmd_def cmd_writes_Idle)
qed

lemma Cmd_SHA256: "Cmd ''SHA256'' = 0x47"
  by (simp add: Cmd_def Cmd_tab_def)

lemma ShaMode_values:
  "ShaMode ''SHA_MODE_SHA256_START'' = 0x00"
  "ShaMode ''SHA_MODE_SHA256_UPDATE'' = 0x01"
  "ShaMode ''SHA_MODE_SHA256_END'' = 0x02"
  by (simp_all add: ShaMode_def ShaMode_tab_def)

lemma cmd_writes_SHA256_update:
  assumes "fst (SHA256_update E bs n i w) = Returns None" and "i \<le> n"
  shows "cmd_writes (trace (snd (SHA256_update E bs n i w)))
     = cmd_writes (trace w) @
       map (\<lambda>j. cmd_packet 0x47 0x01 (0x40, 0x00) (take 64 (drop (64 * j) bs))) [i..<n]"
  using assms
proof (induction E bs n i w rule: SHA256_update.induct)
  case (1 E bs n i w)
  show ?case
  proof (cases "i < n")
    case False
    with "1.prems" show ?thesis
      by (subst SHA256_update.simps) simp
  next
    case True
    let ?ex = "ExecuteCmd E (Cmd ''SHA256'') (ShaMode ''SHA_MODE_SHA256_UPDATE'') (0x40, 0)
                (take 0x40 (drop (i * 0x40) bs)) True w"
    obtain o1 w1 where ex: "?ex = (o1, w1)" by (cases ?ex)
    from "1.prems"(1) True ex obtain d where o1: "o1 = Returns (d, None)"
      by (subst (asm) SHA256_update.simps)
         (auto split: outcome.splits if_splits prod.splits)
    have rec: "SHA256_update E bs n i w = SHA256_update E bs n (i + 1) w1"
      using True ex o1 by (subst SHA256_update.simps) simp
    have ok: "fst (SHA256_update E bs n (i + 1) w1) = Returns None"
      using "1.prems"(1) rec by simp
    have ih: "cmd_writes (trace (snd (SHA256_update E bs n (i + 1) w1)))
       = cmd_writes (trace w1) @
         map (\<lambda>j. cmd_packet 0x47 0x01 (0x40, 0x00) (take 64 (drop (64 * j) bs))) [i + 1..<n]"
      using "1.IH" [OF True ex [symmetric] o1 refl _ ok] True by simp
    have "fst ?ex = Returns (d, None)" using ex o1 by simp
    from cmd_writes_ExecuteCmd [OF this] ex
    have w1: "cmd_writes (trace w1)
       = cmd_writes (trace w) @ [cmd_packet 0x47 0x01 (0x40, 0x00) (take 64 (drop (64 * i) bs))]"
      by (simp add: Cmd_SHA256 ShaMode_values mult.commute)
    show ?thesis
      using rec ih w1 True by (simp add: upt_conv_Cons)
  qed
qed

lemma SHA256_success_cmd_writes:
  assumes ok: "fst (SHA256 E sfmt msg w) = Returns (res, None)"
  shows "cmd_writes (trace (snd (SHA256 E sfmt msg w)))
     = cmd_writes (trace w) @ SHA256_packets (fst (SHA256_msg_bytes E sfmt msg))"
proof -
  let ?start = "ExecuteCmd E (Cmd ''SHA256'') (ShaMode ''SHA_MODE_SHA256_START'') (0x00, 0x00) []
             True w"
  obtain o1 w1 where ex1: "?start = (o1, w1)" by (cases ?start)
  obtain bs err where mb: "SHA256_msg_bytes E sfmt msg = (bs, err)"
    by (cases "SHA256_msg_bytes E sfmt msg")
  let ?n = "length bs div 64"
  obtain o2 w2 where up: "SHA256_update E bs ?n 0 w1 = (o2, w2)"
    by (cases "SHA256_update E bs ?n 0 w1")
  let ?end = "ExecuteCmd E (Cmd ''SHA256'') (ShaMode ''SHA_MODE_SHA256_END'')
                (of_nat (length bs - ?n * 64), 0) (drop (?n * 64) bs) True w2"
  obtain o3 w3 where ex3: "?end = (o3, w3)" by (cases ?end)
  from ok ex1 obtain d1 where o1: "o1 = Returns (d1, None)"
    by (auto simp: SHA256_def split: outcome.splits if_splits prod.splits)
  from ok ex1 o1 mb have err: "err = None"
    by (auto simp: SHA256_def split: outcome.splits if_splits prod.splits)
  from ok ex1 o1 mb err up have o2: "o2 = Returns None"
    by (auto simp: SHA256_def Let_def split: outcome.splits if_splits prod.splits)
  from ok ex1 o1 mb err up o2 ex3 obtain d3 where o3: "o3 = Returns (d3, None)"
    by (auto simp: SHA256_def Let_def split: outcome.splits if_splits prod.splits)
  have final: "snd (SHA256 E sfmt msg w) = Sleep E w3"
    using ex1 o1 mb err up o2 ex3 o3 by (simp add: SHA256_def Let_def)
  have "fst ?start = Returns (d1, None)" using ex1 o1 by simp
  from cmd_writes_ExecuteCmd [OF this] ex1
  have c1: "cmd_writes (trace w1) = cmd_writes (trace w) @ [cmd_packet 0x47 0x00 (0x00, 0x00) []]"
    by (simp add: Cmd_SHA256 ShaMode_values)
  have "fst (SHA256_update E bs ?n 0 w1) = Returns None" using up o2 by simp
  from cmd_writes_SHA256_update [OF this] up
  have c2: "cmd_writes (trace w2) = cmd_writes (trace w1) @
       map (\<lambda>j. cmd_packet 0x47 0x01 (0x40, 0x00) (take 64 (drop (64 * j) bs))) [0..<?n]"
    by simp
  have m: "length bs - ?n * 64 = length bs mod 64"
    by (simp add: minus_div_mult_eq_mod)
  have d: "?n * 64 = length bs - length bs mod 64"
    by (simp add: minus_mod_eq_div_mult)
  have "fst ?end = Returns (d3, None)" using ex3 o3 by simp
  from cmd_writes_ExecuteCmd [OF this] ex3
  have c3: "cmd_writes (trace w3) = cmd_writes (trace w2) @
       [cmd_packet 0x47 0x02 (of_nat (length bs mod 64), 0x00)
          (drop (length bs - length bs mod 64) bs)]"
    by (simp add: Cmd_SHA256 ShaMode_values m d)
  show ?thesis
    by (simp add: final cmd_writes_Sleep c1 c2 c3 mb SHA256_packets_def)
qed

lemma upt_2: "[0..<2] = [0, 1]"
  by (simp add: upt_rec)

text \<open>
  C8: for every message \<open>bs\<close> of \<open>n\<close> bytes, a call of SHA256 that returns without error has
  written to the command register, in this order, one Start packet, then \<open>n div 64\<close> Update
  packets, the \<open>i\<close>-th carrying the bytes \<open>64 * i\<close> to \<open>64 * i + 63\<close> of the message, then one
  End packet carrying the last \<open>n mod 64\<close> bytes with param2 equal to that number.
\<close>

theorem SHA256_command_sequence:
  assumes "fst (SHA256 E sfmt msg w) = Returns (res, None)"
    and "fst (SHA256_msg_bytes E sfmt msg) = bs"
  shows "cmd_writes (trace (snd (SHA256 E sfmt msg w)))
     = cmd_writes (trace w) @
       [cmd_packet 0x47 0x00 (0x00, 0x00) []] @
       map (\<lambda>i. cmd_packet 0x47 0x01 (0x40, 0x00) (take 64 (drop (64 * i) bs)))
         [0..<length bs div 64] @
       [cmd_packet 0x47 0x02 (of_nat (length bs mod 64), 0x00)
          (drop (length bs - length bs mod 64) bs)]"
  using SHA256_success_cmd_writes [OF assms(1)] assms(2)
  by (simp add: SHA256_packets_def)

text \<open>
  A message of 130 bytes: two Update packets with the bytes 0 to 63 and 64 to 127, and an
  End packet with the last two bytes and param2 = 2.
\<close>

theorem SHA256_command_sequence_witness:
  "fst (SHA256 device ''str'' (replicate 64 0x61 @ replicate 64 0x62 @ [0x63, 0x64])
      (script [awake, count4, success, awake, count4, success, awake, count4, success,
               awake, count35, digest]))
     = Returns (''SHA256 HexDigest: '' @ concat (replicate 32 ''ab''), None) \<and>
   fst (SHA256_msg_bytes device ''str'' (replicate 64 0x61 @ replicate 64 0x62 @ [0x63, 0x64]))
     = replicate 64 0x61 @ replicate 64 0x62 @ [0x63, 0x64] \<and>
   cmd_writes (trace (snd (SHA256 device ''str''
      (replicate 64 0x61 @ replicate 64 0x62 @ [0x63, 0x64])
      (script [awake, count4, success, awake, count4, success, awake, count4, success,
               awake, count35, digest]))))
     = [cmd_packet 0x47 0x00 (0x00, 0x00) [],
        cmd_packet 0x47 0x01 (0x40, 0x00) (replicate 64 0x61),
        cmd_packet 0x47 0x01 (0x40, 0x00) (replicate 64 0x62),
        cmd_packet 0x47 0x02 (0x02, 0x00) [0x63, 0x64]]"
proof -
  let ?msg = "replicate 64 0x61 @ replicate 64 0x62 @ [0x63, 0x64] :: byte list"
  have h1: "fst (SHA256 device ''str'' ?msg
      (script [awake, count4, success, awake, count4, success, awake, count4, success,
               awake, count35, digest]))
     = Returns (''SHA256 HexDigest: '' @ concat (replicate 32 ''ab''), None)"
    by code_simp
  have h2: "fst (SHA256_msg_bytes device ''str'' ?msg) = ?msg"
    by (simp add: SHA256_msg_bytes_def)
  note t = SHA256_command_sequence [OF h1 h2]
  have c: "cmd_writes (trace (snd (SHA256 device ''str'' ?msg
      (script [awake, count4, success, awake, count4, success, awake, count4, success,
               awake, count35, digest]))))
     = [cmd_packet 0x47 0x00 (0x00, 0x00) [],
        cmd_packet 0x47 0x01 (0x40, 0x00) (replicate 64 0x61),
        cmd_packet 0x47 0x01 (0x40, 0x00) (replicate 64 0x62),
        cmd_packet 0x47 0x02 (0x02, 0x00) [0x63, 0x64]]"
    unfolding t by (simp add: script_def upt_2)
  from h1 h2 c show ?thesis by blast
qed

text \<open>
  A message of exactly 64 bytes, for every environment: one Update packet with the whole
  message, and an End packet without data.
\<close>

lemma SHA256_one_block:
  assumes "fst (SHA256 E ''str'' msg w) = Returns (res, None)" and "length msg = 64"
  shows "cmd_writes (trace (snd (SHA256 E ''str'' msg w)))
     = cmd_writes (trace w) @
       [cmd_packet 0x47 0x00 (0x00, 0x00) [],
        cmd_packet 0x47 0x01 (0x40, 0x00) msg,
        cmd_packet 0x47 0x02 (0x00, 0x00) []]"
proof -
  have "fst (SHA256_msg_bytes E ''str'' msg) = msg"
    by (simp add: SHA256_msg_bytes_def)
  then show ?thesis
    using SHA256_success_cmd_writes [OF assms(1)] assms(2)
    by (simp add: SHA256_packets_def)
qed

lemma SHA256_msg_bytes_other:
  assumes "sfmt \<noteq> ''hex'' \<and> sfmt \<noteq> ''str'' \<or> sfmt = ''hex'' \<and> msg = []"
  shows "SHA256_msg_bytes E sfmt msg = ([], None)"
  using assms by (auto simp: SHA256_msg_bytes_def)

lemma SHA256_msg_bytes_empty_str: "SHA256_msg_bytes E ''str'' [] = ([], None)"
  by (simp add: SHA256_msg_bytes_def)

text \<open>
  C10: with a format that is neither "hex" nor "str", or with "hex" and an empty message
  string, the message bytes are empty and no error is raised for the format: the call
  behaves as on the empty "str" message, and when it returns without error it has sent
  one Start packet, no Update packet, and an End packet with no data and param2 = 0.
\<close>

theorem SHA256_unrecognized_format:
  assumes "sfmt \<noteq> ''hex'' \<and> sfmt \<noteq> ''str'' \<or> sfmt = ''hex'' \<and> msg = []"
  shows "SHA256_msg_bytes E sfmt msg = ([], None) \<and>
     SHA256 E sfmt msg w = SHA256 E ''str'' [] w \<and>
     (fst (SHA256 E sfmt msg w) = Returns (res, None) \<longrightarrow>
      cmd_writes (trace (snd (SHA256 E sfmt msg w)))
        = cmd_writes (trace w) @
          [cmd_packet 0x47 0x00 (0x00, 0x00) [], cmd_packet 0x47 0x02 (0x00, 0x00) []])"
proof -
  have mb: "SHA256_msg_bytes E sfmt msg = ([], None)"
    using assms by (rule SHA256_msg_bytes_other)
  have same: "SHA256 E sfmt msg w = SHA256 E ''str'' [] w"
    unfolding SHA256_def mb SHA256_msg_bytes_empty_str ..
  have seq: "cmd_writes (trace (snd (SHA256 E sfmt msg w)))
        = cmd_writes (trace w) @
          [cmd_packet 0x47 0x00 (0x00, 0x00) [], cmd_packet 0x47 0x02 (0x00, 0x00) []]"
    if "fst (SHA256 E sfmt msg w) = Returns (res, None)"
    using SHA256_success_cmd_writes [OF that] by (simp add: mb SHA256_packets_def)
  from mb same seq show ?thesis by blast
qed

theorem SHA256_unrecognized_format_witness:
  "''raw'' \<noteq> ''hex'' \<and> ''raw'' \<noteq> ''str'' \<and>
   fst (SHA256 device ''raw'' [0x61, 0x62, 0x63]
      (script [awake, count4, success, awake, count35, digest]))
     = Returns (''SHA256 HexDigest: '' @ concat (replicate 32 ''ab''), None) \<and>
   SHA256_msg_bytes device ''raw'' [0x61, 0x62, 0x63] = ([], None) \<and>
   SHA256 device ''raw'' [0x61, 0x62, 0x63]
      (script [awake, count4, success, awake, count35, digest])
     = SHA256 device ''str'' [] (script [awake, count4, success, awake, count35, digest]) \<and>
   cmd_writes (trace (snd (SHA256 device ''raw'' [0x61, 0x62, 0x63]
      (script [awake, count4, success, awake, count35, digest]))))
     = [cmd_packet 0x47 0x00 (0x00, 0x00) [], cmd_packet 0x47 0x02 (0x00, 0x00) []]"
proof -
  have f: "''raw'' \<noteq> ''hex'' \<and> ''raw'' \<noteq> ''str''"
    by simp
  then have h1: "''raw'' \<noteq> ''hex'' \<and> ''raw'' \<noteq> ''str'' \<or>
      ''raw'' = ''hex'' \<and> [0x61, 0x62, 0x63 :: byte] = []"
    by blast
  have h2: "fst (SHA256 device ''raw'' [0x61, 0x62, 0x63]
      (script [awake, count4, success, awake, count35, digest]))
     = Returns (''SHA256 HexDigest: '' @ concat (replicate 32 ''ab''), None)"
    by code_simp
  note t = SHA256_unrecognized_format [OF h1, of device
      "script [awake, count4, success, awake, count35, digest]"
      "''SHA256 HexDigest: '' @ concat (replicate 32 ''ab'')"]
  have c: "cmd_writes (trace (snd (SHA256 device ''raw'' [0x61, 0x62, 0x63]
      (script [awake, count4, success, awake, count35, digest]))))
     = [cmd_packet 0x47 0x00 (0x00, 0x00) [], cmd_packet 0x47 0x02 (0x00, 0x00) []]"
  proof -
    from t h2 have "cmd_writes (trace (snd (SHA256 device ''raw'' [0x61, 0x62, 0x63]
        (script [awake, count4, success, awake, count35, digest]))))
       = cmd_writes (trace (script [awake, count4, success, awake, count35, digest])) @
         [cmd_packet 0x47 0x00 (0x00, 0x00) [], cmd_packet 0x47 0x02 (0x00, 0x00) []]"
      by blast
    moreover have "cmd_writes (trace (script [awake, count4, success, awake, count35, digest]))
       = []"
      by (simp add: script_def)
    ultimately show ?thesis by simp
  qed
  from f h2 t c show ?thesis by blast
qed

end
